theory Spec2Isabelle
  imports Main "HOL-Library.Sublist"
begin

section \<open>Python values\<close>

text \<open>
  A resource spec is a Python dictionary with string keys (\<^verbatim>\<open>Dict[str, Any]\<close>). Its values
  are the values JSON can carry, floats apart: \<^verbatim>\<open>None\<close>, booleans, integers, strings, lists
  and dictionaries. A dictionary is an association list in insertion order; a lookup takes
  the first binding of a key. A character is a code point below 256.
\<close>

datatype pyval =
    PNone
  | PBool bool
  | PInt int
  | PStr string
  | PList "pyval list"
  | PDict "(string \<times> pyval) list"

type_synonym pydict = "(string \<times> pyval) list"

text \<open>\<^verbatim>\<open>d.get(k)\<close>: the value, or \<^verbatim>\<open>None\<close> when the key is absent.\<close>

definition py_get :: "pydict \<Rightarrow> string \<Rightarrow> pyval" where
  "py_get d k = (case map_of d k of None \<Rightarrow> PNone | Some v \<Rightarrow> v)"

text \<open>\<^verbatim>\<open>d.get(k, default)\<close>.\<close>

definition py_get_default :: "pydict \<Rightarrow> string \<Rightarrow> pyval \<Rightarrow> pyval" where
  "py_get_default d k dflt = (case map_of d k of None \<Rightarrow> dflt | Some v \<Rightarrow> v)"

text \<open>\<^verbatim>\<open>k in d\<close>.\<close>

definition py_in_dict :: "string \<Rightarrow> pydict \<Rightarrow> bool" where
  "py_in_dict k d = (map_of d k \<noteq> None)"

text \<open>Truth value testing, as \<^verbatim>\<open>if x\<close> and \<^verbatim>\<open>not x\<close> do it.\<close>

fun truthy :: "pyval \<Rightarrow> bool" where
  "truthy PNone = False"
| "truthy (PBool b) = b"
| "truthy (PInt i) = (i \<noteq> 0)"
| "truthy (PStr s) = (s \<noteq> [])"
| "truthy (PList xs) = (xs \<noteq> [])"
| "truthy (PDict kvs) = (kvs \<noteq> [])"

subsection \<open>Conversion to text\<close>

text \<open>\<^verbatim>\<open>sep.join(xs)\<close> on strings.\<close>

fun join :: "string \<Rightarrow> string list \<Rightarrow> string" where
  "join sep [] = []"
| "join sep [x] = x"
| "join sep (x # y # ys) = x @ sep @ join sep (y # ys)"

definition digit_char :: "nat \<Rightarrow> char" where
  "digit_char d = ''0123456789'' ! (d mod 10)"

fun str_nat :: "nat \<Rightarrow> string" where
  "str_nat n = (if n < 10 then [digit_char n] else str_nat (n div 10) @ [digit_char (n mod 10)])"

declare str_nat.simps [simp del]

definition str_int :: "int \<Rightarrow> string" where
  "str_int i = (if i < 0 then ''-'' @ str_nat (nat (- i)) else str_nat (nat i))"

definition hex_char :: "nat \<Rightarrow> char" where
  "hex_char d = ''0123456789abcdef'' ! (d mod 16)"

text \<open>
  \<^verbatim>\<open>repr\<close> of a string: single quotes, unless the string holds a single quote and no
  double quote; the quote and the backslash are escaped, tab, newline and carriage return
  have their letter escapes, and the other unprintable code points below 256 (the control
  characters, the no-break space and the soft hyphen) are written \<^verbatim>\<open>\xhh\<close>.
\<close>

definition repr_char :: "char \<Rightarrow> char \<Rightarrow> string" where
  "repr_char quote c =
     (let n = (of_char c :: nat) in
      if c = quote \<or> c = CHR 0x5C then [CHR 0x5C, c]
      else if c = CHR 0x09 then [CHR 0x5C, CHR ''t'']
      else if c = CHR 0x0A then [CHR 0x5C, CHR ''n'']
      else if c = CHR 0x0D then [CHR 0x5C, CHR ''r'']
      else if n < 32 \<or> (127 \<le> n \<and> n \<le> 160) \<or> n = 173
        then [CHR 0x5C, CHR ''x'', hex_char (n div 16), hex_char (n mod 16)]
      else [c])"

definition repr_str :: "string \<Rightarrow> string" where
  "repr_str s =
     (let quote = (if CHR 0x27 \<in> set s \<and> CHR 0x22 \<notin> set s then CHR 0x22 else CHR 0x27)
      in [quote] @ concat (map (repr_char quote) s) @ [quote])"

fun py_repr :: "pyval \<Rightarrow> string" where
  "py_repr PNone = ''None''"
| "py_repr (PBool b) = (if b then ''True'' else ''False'')"
| "py_repr (PInt i) = str_int i"
| "py_repr (PStr s) = repr_str s"
| "py_repr (PList xs) = ''['' @ join '', '' (map py_repr xs) @ '']''"
| "py_repr (PDict kvs) =
     ''{'' @ join '', '' (map (\<lambda>kv. repr_str (fst kv) @ '': '' @ py_repr (snd kv)) kvs) @ ''}''"

text \<open>\<^verbatim>\<open>str(x)\<close>, which is also what an f-string and \<^verbatim>\<open>str.format\<close> put for a field
  with no format specification.\<close>

fun py_str :: "pyval \<Rightarrow> string" where
  "py_str (PStr s) = s"
| "py_str v = py_repr v"

section \<open>Exceptions\<close>

text \<open>
  The exceptions the program raises or meets, each with the text \<^verbatim>\<open>str(e)\<close> gives.
  \<open>ApiException\<close> is the object store client's error and carries the HTTP status;
  \<open>PermanentError\<close> and \<open>TemporaryError\<close> are the scheduler's two classifications, the
  second with its redelivery delay.
\<close>

datatype exn =
    ValueError string
  | TypeError string
  | AttributeError string
  | ApiException nat string
  | KeyError string
  | OtherException string
  | PermanentError string
  | TemporaryError string nat

fun exn_str :: "exn \<Rightarrow> string" where
  "exn_str (ValueError m) = m"
| "exn_str (TypeError m) = m"
| "exn_str (AttributeError m) = m"
| "exn_str (ApiException st m) = m"
| "exn_str (KeyError m) = repr_str m"
| "exn_str (OtherException m) = m"
| "exn_str (PermanentError m) = m"
| "exn_str (TemporaryError m d) = m"

section \<open>Record validation (operator/utils/validation.py)\<close>

subsection \<open>The regular expression of the A record\<close>

datatype rexp =
    Eps
  | Nul
  | Digit
  | Lit char
  | Seq rexp rexp
  | Alt rexp rexp

definition is_digit :: "char \<Rightarrow> bool" where
  "is_digit c = (c \<in> set ''0123456789'')"

fun nullable :: "rexp \<Rightarrow> bool" where
  "nullable Eps = True"
| "nullable Nul = False"
| "nullable Digit = False"
| "nullable (Lit c) = False"
| "nullable (Seq r s) = (nullable r \<and> nullable s)"
| "nullable (Alt r s) = (nullable r \<or> nullable s)"

fun deriv :: "char \<Rightarrow> rexp \<Rightarrow> rexp" where
  "deriv c Eps = Nul"
| "deriv c Nul = Nul"
| "deriv c Digit = (if is_digit c then Eps else Nul)"
| "deriv c (Lit d) = (if c = d then Eps else Nul)"
| "deriv c (Seq r s) =
     (if nullable r then Alt (Seq (deriv c r) s) (deriv c s) else Seq (deriv c r) s)"
| "deriv c (Alt r s) = Alt (deriv c r) (deriv c s)"

text \<open>Whether the whole string is in the language of the expression.\<close>

fun fullmatch :: "rexp \<Rightarrow> string \<Rightarrow> bool" where
  "fullmatch r [] = nullable r"
| "fullmatch r (c # cs) = fullmatch (deriv c r) cs"

text \<open>\<^verbatim>\<open>\d{1,3}\<close>\<close>

definition digits_1_3 :: rexp where
  "digits_1_3 = Seq Digit (Alt Eps (Seq Digit (Alt Eps Digit)))"

text \<open>\<^verbatim>\<open>(\d{1,3}\.){3}\d{1,3}\<close>\<close>

definition dotted_quad :: rexp where
  "dotted_quad =
     Seq (Seq digits_1_3 (Lit CHR ''.''))
       (Seq (Seq digits_1_3 (Lit CHR ''.''))
         (Seq (Seq digits_1_3 (Lit CHR ''.'')) digits_1_3))"

text \<open>
  \<^verbatim>\<open>re.match(r"^(\d{1,3}\.){3}\d{1,3}$", s)\<close> as a truth value. The match is anchored at
  the start, and \<^verbatim>\<open>$\<close> matches at the end of the string and also just before a newline
  that ends the string. Anything but a string raises \<^verbatim>\<open>TypeError\<close>. (The texts of
  the exceptions that the interpreter raises differ between its versions; no property
  below depends on them.)
\<close>

definition re_match_ipv4 :: "pyval \<Rightarrow> exn + bool" where
  "re_match_ipv4 v =
     (case v of
        PStr s \<Rightarrow> Inr (fullmatch (Seq dotted_quad (Alt Eps (Lit CHR 0x0A))) s)
      | _ \<Rightarrow> Inl (TypeError ''expected string or bytes-like object''))"

subsection \<open>The validators\<close>

definition validate_a_record :: "pydict \<Rightarrow> exn + unit" where
  "validate_a_record spec =
     (let ipv4 = py_get spec ''ipv4Address'' in
      if \<not> truthy ipv4 then Inl (ValueError (''Invalid IPv4 address: '' @ py_str ipv4))
      else case re_match_ipv4 ipv4 of
             Inl e \<Rightarrow> Inl e
           | Inr m \<Rightarrow>
               if \<not> m then Inl (ValueError (''Invalid IPv4 address: '' @ py_str ipv4))
               else Inr ())"

definition validate_aaaa_record :: "pydict \<Rightarrow> exn + unit" where
  "validate_aaaa_record spec =
     (let ipv6 = py_get spec ''ipv6Address'' in
      if \<not> truthy ipv6 then Inl (ValueError ''IPv6 address required'') else Inr ())"

definition validate_cname_record :: "pydict \<Rightarrow> exn + unit" where
  "validate_cname_record spec =
     (let target = py_get spec ''target'' in
      if \<not> truthy target then Inl (ValueError ''Target required for CNAME'') else Inr ())"

definition validate_mx_record :: "pydict \<Rightarrow> exn + unit" where
  "validate_mx_record spec =
     (if \<not> py_in_dict ''priority'' spec \<or> \<not> py_in_dict ''mailServer'' spec
      then Inl (ValueError ''Priority and mailServer required for MX record'')
      else Inr ())"

text \<open>The table of registered checks, and the dispatch on the record type.\<close>

definition validators :: "(string \<times> (pydict \<Rightarrow> exn + unit)) list" where
  "validators =
     [(''A'', validate_a_record),
      (''AAAA'', validate_aaaa_record),
      (''CNAME'', validate_cname_record),
      (''MX'', validate_mx_record)]"

definition validate_dns_record :: "string \<Rightarrow> pydict \<Rightarrow> exn + unit" where
  "validate_dns_record record_type spec =
     (case map_of validators record_type of
        None \<Rightarrow> Inr ()
      | Some validator \<Rightarrow> validator spec)"

section \<open>Results that may be an exception\<close>

definition bind :: "exn + 'a \<Rightarrow> ('a \<Rightarrow> exn + 'b) \<Rightarrow> exn + 'b" where
  "bind m f = (case m of Inl e \<Rightarrow> Inl e | Inr x \<Rightarrow> f x)"

definition type_name :: "pyval \<Rightarrow> string" where
  "type_name v =
     (case v of
        PNone \<Rightarrow> ''NoneType''
      | PBool _ \<Rightarrow> ''bool''
      | PInt _ \<Rightarrow> ''int''
      | PStr _ \<Rightarrow> ''str''
      | PList _ \<Rightarrow> ''list''
      | PDict _ \<Rightarrow> ''dict'')"

definition no_attribute :: "pyval \<Rightarrow> string \<Rightarrow> exn" where
  "no_attribute v a =
     AttributeError ([CHR 0x27] @ type_name v @ [CHR 0x27] @ '' object has no attribute ''
       @ [CHR 0x27] @ a @ [CHR 0x27])"

text \<open>\<^verbatim>\<open>v.get(k, default)\<close> on a value that need not be a dictionary.\<close>

definition py_attr_get :: "pyval \<Rightarrow> string \<Rightarrow> pyval \<Rightarrow> exn + pyval" where
  "py_attr_get v k dflt =
     (case v of
        PDict d \<Rightarrow> Inr (py_get_default d k dflt)
      | _ \<Rightarrow> Inl (no_attribute v ''get''))"

text \<open>\<^verbatim>\<open>v.replace(old, new)\<close> for one-character \<^verbatim>\<open>old\<close> and \<^verbatim>\<open>new\<close>.\<close>

definition py_replace :: "pyval \<Rightarrow> char \<Rightarrow> char \<Rightarrow> exn + string" where
  "py_replace v old new =
     (case v of
        PStr s \<Rightarrow> Inr (map (\<lambda>c. if c = old then new else c) s)
      | _ \<Rightarrow> Inl (no_attribute v ''replace''))"

text \<open>
  \<^verbatim>\<open>sep.join(v)\<close>: the items of a list must all be strings; a string is joined
  character by character and a dictionary key by key; the other values cannot be iterated.
\<close>

fun the_strs :: "nat \<Rightarrow> pyval list \<Rightarrow> exn + string list" where
  "the_strs i [] = Inr []"
| "the_strs i (PStr s # vs) = bind (the_strs (Suc i) vs) (\<lambda>ss. Inr (s # ss))"
| "the_strs i (v # vs) =
     Inl (TypeError (''sequence item '' @ str_nat i @ '': expected str instance, ''
       @ type_name v @ '' found''))"

definition py_join :: "string \<Rightarrow> pyval \<Rightarrow> exn + string" where
  "py_join sep v =
     (case v of
        PList vs \<Rightarrow> bind (the_strs 0 vs) (\<lambda>ss. Inr (join sep ss))
      | PStr s \<Rightarrow> Inr (join sep (map (\<lambda>c. [c]) s))
      | PDict d \<Rightarrow> Inr (join sep (map fst d))
      | _ \<Rightarrow> Inl (TypeError ''can only join an iterable''))"

section \<open>Configuration templates (operator/config/templates.py)\<close>

text \<open>
  A template is the text between its replacement fields and the fields' names, with the
  doubled braces of the source already read as single braces. \<^verbatim>\<open>str.format\<close> puts the
  keyword argument of the same name in each field and raises \<^verbatim>\<open>KeyError\<close> when there is none.
\<close>

datatype piece = Text string | Slot string

fun py_format :: "piece list \<Rightarrow> (string \<times> string) list \<Rightarrow> exn + string" where
  "py_format [] kwargs = Inr []"
| "py_format (Text t # ps) kwargs = bind (py_format ps kwargs) (\<lambda>r. Inr (t @ r))"
| "py_format (Slot k # ps) kwargs =
     (case map_of kwargs k of
        None \<Rightarrow> Inl (KeyError k)
      | Some v \<Rightarrow> bind (py_format ps kwargs) (\<lambda>r. Inr (v @ r)))"

definition BIND9_CONFIG_TEMPLATE :: "piece list" where
  \<open>BIND9_CONFIG_TEMPLATE =
    [Text ''\<newline>'',
     Text ''// Generated BIND9 configuration for '', Slot ''instance_name'', Text ''\<newline>'',
     Text ''options {\<newline>'',
     Text ''    directory "/var/lib/bind";\<newline>'',
     Text ''    listen-on { any; };\<newline>'',
     Text ''    listen-on-v6 { any; };\<newline>'',
     Text ''\<newline>'',
     Text ''    allow-query { '', Slot ''allow_query'', Text ''; };\<newline>'',
     Text ''    allow-transfer { '', Slot ''allow_transfer'', Text ''; };\<newline>'',
     Text ''    recursion '', Slot ''recursion'', Text '';\<newline>'',
     Text ''\<newline>'',
     Text ''    dnssec-validation '', Slot ''dnssec_validation'', Text '';\<newline>'',
     Text ''\<newline>'',
     Text ''    version none;\<newline>'',
     Text ''    hostname none;\<newline>'',
     Text ''    server-id none;\<newline>'',
     Text ''};\<newline>'',
     Text ''\<newline>'',
     Text ''logging {\<newline>'',
     Text ''    channel default_log {\<newline>'',
     Text ''        file "/var/log/bind/named.log" versions 3 size 5m;\<newline>'',
     Text ''        severity info;\<newline>'',
     Text ''        print-time yes;\<newline>'',
     Text ''        print-severity yes;\<newline>'',
     Text ''        print-category yes;\<newline>'',
     Text ''    };\<newline>'',
     Text ''\<newline>'',
     Text ''    category default { default_log; };\<newline>'',
     Text ''    category queries { default_log; };\<newline>'',
     Text ''};\<newline>'',
     Text ''\<newline>'',
     Text ''include "/etc/bind/zones/*.conf";\<newline>'']\<close>

definition ZONE_FILE_TEMPLATE :: "piece list" where
  \<open>ZONE_FILE_TEMPLATE =
    [Text ''\<newline>'',
     Text ''$ORIGIN '', Slot ''zone_name'', Text ''.\<newline>'',
     Text ''$TTL '', Slot ''ttl'', Text ''\<newline>'',
     Text ''\<newline>'',
     Text ''@ IN SOA '', Slot ''primary_ns'', Text '' '', Slot ''admin_email'', Text '' (\<newline>'',
     Text ''    '', Slot ''serial'', Text ''    ; Serial\<newline>'',
     Text ''    '', Slot ''refresh'', Text ''   ; Refresh\<newline>'',
     Text ''    '', Slot ''retry'', Text ''     ; Retry\<newline>'',
     Text ''    '', Slot ''expire'', Text ''    ; Expire\<newline>'',
     Text ''    '', Slot ''minimum'', Text ''   ; Negative TTL\<newline>'',
     Text '')\<newline>'',
     Text ''\<newline>'',
     Text ''; Records will be added here\<newline>'']\<close>

section \<open>Configuration synthesis (operator/config/bind9.py)\<close>

text \<open>
  The keyword arguments of \<^verbatim>\<open>format\<close> are evaluated in the order they are written, so
  the first one that raises decides the exception. The namespace is not used.
\<close>

definition generate_bind9_config :: "pydict \<Rightarrow> string \<Rightarrow> string \<Rightarrow> exn + string" where
  "generate_bind9_config spec instance_name namespace =
     (let config = py_get_default spec ''config'' (PDict []) in
      bind (py_attr_get config ''allowQuery'' (PList [PStr ''any''])) (\<lambda>aq.
      bind (py_join '' '' aq) (\<lambda>allow_query.
      bind (py_attr_get config ''allowTransfer'' (PList [PStr ''none''])) (\<lambda>at.
      bind (py_join '' '' at) (\<lambda>allow_transfer.
      bind (py_attr_get config ''recursion'' (PBool False)) (\<lambda>recursion.
      bind (py_attr_get config ''dnssec'' (PDict [])) (\<lambda>dnssec.
      bind (py_attr_get dnssec ''enabled'' (PBool False)) (\<lambda>enabled.
      py_format BIND9_CONFIG_TEMPLATE
        [(''instance_name'', instance_name),
         (''allow_query'', allow_query),
         (''allow_transfer'', allow_transfer),
         (''recursion'', if truthy recursion then ''yes'' else ''no''),
         (''dnssec_validation'', if truthy enabled then ''auto'' else ''no'')]))))))))"

text \<open>
  The clock is read as a calendar date. \<^verbatim>\<open>int(datetime.now().strftime("%Y%m%d01"))\<close>
  is the number whose decimal digits are the year, the two digits of the month, the two
  digits of the day and \<^verbatim>\<open>01\<close>.
\<close>

record date =
  year :: nat
  month :: nat
  day :: nat

definition date_serial :: "date \<Rightarrow> int" where
  "date_serial d = int (((year d * 100 + month d) * 100 + day d) * 100 + 1)"

text \<open>
  The zone name is what the caller read from the spec's \<^verbatim>\<open>zoneName\<close>, whatever value
  that is. The default of the serial is computed from the clock on every call, and used
  when the SOA record has no \<^verbatim>\<open>serial\<close>. The namespace and the logger are not used.
\<close>

definition generate_zone_file :: "date \<Rightarrow> pydict \<Rightarrow> pyval \<Rightarrow> string \<Rightarrow> exn + string" where
  "generate_zone_file now spec zone_name namespace =
     (let soa = py_get_default spec ''soaRecord'' (PDict []) in
      bind (py_attr_get soa ''serial'' (PInt (date_serial now))) (\<lambda>serial.
      bind (py_attr_get soa ''primaryNS'' (PStr (''ns1.'' @ py_str zone_name @ ''.''))) (\<lambda>primary_ns.
      bind (py_attr_get soa ''adminEmail'' (PStr (''admin.'' @ py_str zone_name @ ''.''))) (\<lambda>email.
      bind (py_replace email CHR ''@'' CHR ''.'') (\<lambda>admin_email.
      bind (py_attr_get soa ''refresh'' (PInt 3600)) (\<lambda>refresh.
      bind (py_attr_get soa ''retry'' (PInt 600)) (\<lambda>retry.
      bind (py_attr_get soa ''expire'' (PInt 604800)) (\<lambda>expire.
      bind (py_attr_get soa ''negativeTTL'' (PInt 86400)) (\<lambda>minimum.
      py_format ZONE_FILE_TEMPLATE
        [(''zone_name'', py_str zone_name),
         (''ttl'', py_str (py_get_default spec ''ttl'' (PInt 3600))),
         (''primary_ns'', py_str primary_ns),
         (''admin_email'', admin_email),
         (''serial'', py_str serial),
         (''refresh'', py_str refresh),
         (''retry'', py_str retry),
         (''expire'', py_str expire),
         (''minimum'', py_str minimum)])))))))))"

section \<open>The objects of the store (bodies built in operator/kubernetes/resources.py)\<close>

text \<open>
  The names, namespaces and uids the scheduler hands to a handler are strings. A field
  the source leaves out of a constructor call is \<open>None\<close> here.
\<close>

record owner_reference =
  or_api_version :: string
  or_kind :: string
  or_name :: string
  or_uid :: string
  or_controller :: "bool option"
  or_block_owner_deletion :: "bool option"

record object_meta =
  om_name :: "string option"
  om_namespace :: "string option"
  om_labels :: "(string \<times> string) list"
  om_owner_references :: "owner_reference list"

record config_map =
  cm_api_version :: string
  cm_kind :: string
  cm_metadata :: object_meta
  cm_data :: "(string \<times> string) list"

record port =
  port_number :: nat
  port_protocol :: string
  port_name :: string

record volume_mount =
  vm_name :: string
  vm_mount_path :: string
  vm_read_only :: bool

record container =
  ct_name :: string
  ct_image :: pyval
  ct_ports :: "port list"
  ct_volume_mounts :: "volume_mount list"

record volume =
  vol_name :: string
  vol_config_map :: string

record stateful_set =
  sts_api_version :: string
  sts_kind :: string
  sts_metadata :: object_meta
  sts_service_name :: string
  sts_replicas :: pyval
  sts_match_labels :: "(string \<times> string) list"
  sts_template_metadata :: object_meta
  sts_containers :: "container list"
  sts_volumes :: "volume list"

record service =
  svc_api_version :: string
  svc_kind :: string
  svc_metadata :: object_meta
  svc_selector :: "(string \<times> string) list"
  svc_ports :: "port list"
  svc_type :: string

section \<open>The world outside the program\<close>

text \<open>
  Every call that leaves the program is recorded, in order: the loading of the client
  configuration, the requests to the object store (with the namespace, the name where the
  request has one, and the body), the calls of the logger, the DNS query of the health
  probe (with the name server it is sent to) and the waits on the stop signal.
\<close>

datatype call =
    LoadInclusterConfig
  | LoadKubeConfig
  | CreateConfigMap string config_map
  | PatchConfigMap string string config_map
  | CreateStatefulSet string stateful_set
  | PatchStatefulSet string string stateful_set
  | CreateService string service
  | LogInfo string
  | LogError string
  | LogException string
  | DnsQuery string
  | Wait nat

text \<open>
  The program does not decide how such a call ends. The environment says, for the calls
  made so far and the call being made, whether it returns (\<open>None\<close>) or raises; it also
  holds the environment variable \<^verbatim>\<open>KUBERNETES_SERVICE_HOST\<close>, the stop signal of the
  daemon and the clock, the last two as they stand after the calls made so far. The
  exceptions of the model are all instances of \<^verbatim>\<open>Exception\<close>; \<open>OtherException\<close> stands for
  any that is neither a \<^verbatim>\<open>ValueError\<close> nor an \<^verbatim>\<open>ApiException\<close>.
\<close>

record env =
  respond :: "call list \<Rightarrow> call \<Rightarrow> exn option"
  kubernetes_service_host :: "string option"
  stopped :: "call list \<Rightarrow> bool"
  clock :: "call list \<Rightarrow> date"

text \<open>
  A computation takes the calls made so far and gives its result, a value or the
  exception it raised, with the calls made when it ends.
\<close>

type_synonym 'a io = "call list \<Rightarrow> (exn + 'a) \<times> call list"

definition io_return :: "'a \<Rightarrow> 'a io" where
  "io_return x h = (Inr x, h)"

definition io_raise :: "exn \<Rightarrow> 'a io" where
  "io_raise e h = (Inl e, h)"

definition io_lift :: "exn + 'a \<Rightarrow> 'a io" where
  "io_lift r h = (r, h)"

definition io_call :: "env \<Rightarrow> call \<Rightarrow> unit io" where
  "io_call w c h = (case respond w h c of None \<Rightarrow> (Inr (), h @ [c]) | Some e \<Rightarrow> (Inl e, h @ [c]))"

definition io_now :: "env \<Rightarrow> date io" where
  "io_now w h = (Inr (clock w h), h)"

text \<open>Sequencing: an exception of the first part ends the whole.\<close>

definition io_bind :: "'a io \<Rightarrow> ('a \<Rightarrow> 'b io) \<Rightarrow> 'b io" where
  "io_bind m f h = (case m h of (Inl e, h') \<Rightarrow> (Inl e, h') | (Inr x, h') \<Rightarrow> f x h')"

text \<open>\<^verbatim>\<open>try: m  except Exception as e: handler\<close>\<close>

definition io_catch :: "'a io \<Rightarrow> (exn \<Rightarrow> 'a io) \<Rightarrow> 'a io" where
  "io_catch m handler h = (case m h of (Inl e, h') \<Rightarrow> handler e h' | (Inr x, h') \<Rightarrow> (Inr x, h'))"

text \<open>The calls a computation adds to the calls made before it.\<close>

definition new_calls :: "'a io \<Rightarrow> call list \<Rightarrow> call list" where
  "new_calls m h = drop (length h) (snd (m h))"

section \<open>The store client (operator/kubernetes/client.py)\<close>

text \<open>
  The three API objects the source returns are built without a call; what can fail is the
  loading of the configuration, which is tried a second time from the kube config when
  the first attempt raises.
\<close>

definition get_k8s_client :: "env \<Rightarrow> unit io" where
  "get_k8s_client w =
     io_catch
       (if (case kubernetes_service_host w of None \<Rightarrow> False | Some v \<Rightarrow> v \<noteq> [])
        then io_call w LoadInclusterConfig
        else io_call w LoadKubeConfig)
       (\<lambda>e. io_call w LoadKubeConfig)"

section \<open>Creation of the artifacts (operator/kubernetes/resources.py)\<close>

definition bind9_owner :: "string \<Rightarrow> string \<Rightarrow> bool option \<Rightarrow> owner_reference" where
  "bind9_owner name uid ctl =
     \<lparr>or_api_version = ''dns.example.com/v1alpha1'', or_kind = ''Bind9Instance'',
      or_name = name, or_uid = uid, or_controller = ctl, or_block_owner_deletion = ctl\<rparr>"

definition bind9_statefulset :: "pydict \<Rightarrow> string \<Rightarrow> string \<Rightarrow> string \<Rightarrow> stateful_set" where
  "bind9_statefulset spec name namespace uid =
     \<lparr>sts_api_version = ''apps/v1'',
      sts_kind = ''StatefulSet'',
      sts_metadata =
        \<lparr>om_name = Some (name @ ''-bind9''), om_namespace = Some namespace, om_labels = [],
         om_owner_references = [bind9_owner name uid (Some True)]\<rparr>,
      sts_service_name = name @ ''-headless'',
      sts_replicas = py_get_default spec ''replicas'' (PInt 1),
      sts_match_labels = [(''app'', name @ ''-bind9'')],
      sts_template_metadata =
        \<lparr>om_name = None, om_namespace = None, om_labels = [(''app'', name @ ''-bind9'')],
         om_owner_references = []\<rparr>,
      sts_containers =
        [\<lparr>ct_name = ''bind9'',
          ct_image = py_get_default spec ''version'' (PStr ''internetsystemsconsortium/bind9:9.18''),
          ct_ports =
            [\<lparr>port_number = 53, port_protocol = ''UDP'', port_name = ''dns-udp''\<rparr>,
             \<lparr>port_number = 53, port_protocol = ''TCP'', port_name = ''dns-tcp''\<rparr>],
          ct_volume_mounts =
            [\<lparr>vm_name = ''config'', vm_mount_path = ''/etc/bind'', vm_read_only = True\<rparr>,
             \<lparr>vm_name = ''zones'', vm_mount_path = ''/etc/bind/zones'', vm_read_only = True\<rparr>]\<rparr>],
      sts_volumes =
        [\<lparr>vol_name = ''config'', vol_config_map = name @ ''-config''\<rparr>,
         \<lparr>vol_name = ''zones'', vol_config_map = name @ ''-zones''\<rparr>]\<rparr>"

text \<open>
  The log call is inside the \<^verbatim>\<open>try\<close>. An \<^verbatim>\<open>ApiException\<close> with a status other than 409
  is caught and dropped; any other exception passes to the caller.
\<close>

definition create_bind9_statefulset :: "env \<Rightarrow> pydict \<Rightarrow> string \<Rightarrow> string \<Rightarrow> string \<Rightarrow> unit io" where
  "create_bind9_statefulset w spec name namespace uid =
     io_bind (get_k8s_client w) (\<lambda>_.
       let statefulset = bind9_statefulset spec name namespace uid in
       io_catch
         (io_bind (io_call w (CreateStatefulSet namespace statefulset)) (\<lambda>_.
            io_call w (LogInfo (''StatefulSet '' @ name @ ''-bind9 created''))))
         (\<lambda>e. case e of
                 ApiException status _ \<Rightarrow>
                   if status = 409
                   then io_call w (PatchStatefulSet (name @ ''-bind9'') namespace statefulset)
                   else io_return ()
               | _ \<Rightarrow> io_raise e))"

definition bind9_service :: "string \<Rightarrow> string \<Rightarrow> string \<Rightarrow> service" where
  "bind9_service name namespace uid =
     \<lparr>svc_api_version = ''v1'',
      svc_kind = ''Service'',
      svc_metadata =
        \<lparr>om_name = Some (name @ ''-dns''), om_namespace = Some namespace, om_labels = [],
         om_owner_references = [bind9_owner name uid None]\<rparr>,
      svc_selector = [(''app'', name @ ''-bind9'')],
      svc_ports =
        [\<lparr>port_number = 53, port_protocol = ''UDP'', port_name = ''dns-udp''\<rparr>,
         \<lparr>port_number = 53, port_protocol = ''TCP'', port_name = ''dns-tcp''\<rparr>],
      svc_type = ''LoadBalancer''\<rparr>"

definition create_bind9_services :: "env \<Rightarrow> string \<Rightarrow> string \<Rightarrow> string \<Rightarrow> unit io" where
  "create_bind9_services w name namespace uid =
     io_bind (get_k8s_client w) (\<lambda>_.
       let service = bind9_service name namespace uid in
       io_catch
         (io_call w (CreateService namespace service))
         (\<lambda>e. case e of
                 ApiException status _ \<Rightarrow> if status \<noteq> 409 then io_raise e else io_return ()
               | _ \<Rightarrow> io_raise e))"

definition configmap_body :: "string \<Rightarrow> string \<Rightarrow> string \<Rightarrow> string \<Rightarrow> string \<Rightarrow> config_map" where
  "configmap_body name namespace data uid cm_type =
     \<lparr>cm_api_version = ''v1'',
      cm_kind = ''ConfigMap'',
      cm_metadata =
        \<lparr>om_name = Some (name @ ''-'' @ cm_type), om_namespace = Some namespace, om_labels = [],
         om_owner_references = [bind9_owner name uid None]\<rparr>,
      cm_data = [(cm_type @ ''.conf'', data)]\<rparr>"

definition create_configmap :: "env \<Rightarrow> string \<Rightarrow> string \<Rightarrow> string \<Rightarrow> string \<Rightarrow> string \<Rightarrow> unit io" where
  "create_configmap w name namespace data uid cm_type =
     io_bind (get_k8s_client w) (\<lambda>_.
       let cm_name = name @ ''-'' @ cm_type;
           configmap = configmap_body name namespace data uid cm_type in
       io_catch
         (io_call w (CreateConfigMap namespace configmap))
         (\<lambda>e. case e of
                 ApiException status _ \<Rightarrow>
                   if status = 409 then io_call w (PatchConfigMap cm_name namespace configmap)
                   else io_return ()
               | _ \<Rightarrow> io_raise e))"

text \<open>The two functions the source leaves as a log call. The instance name and the zone
  reference are what the handler read from the spec.\<close>

definition reload_bind9_config :: "env \<Rightarrow> pyval \<Rightarrow> string \<Rightarrow> unit io" where
  "reload_bind9_config w instance_name namespace =
     io_call w (LogInfo (''Reloading BIND9 config for '' @ py_str instance_name))"

definition update_zone_file :: "env \<Rightarrow> pyval \<Rightarrow> string \<Rightarrow> string \<Rightarrow> string \<Rightarrow> pydict \<Rightarrow> unit io" where
  "update_zone_file w zone_ref namespace record_name record_type spec =
     io_call w (LogInfo (''Updating zone '' @ py_str zone_ref @ '' with '' @ record_type
       @ '' record '' @ record_name))"

section \<open>The health probe (operator/utils/dns.py)\<close>

text \<open>
  The body of the \<^verbatim>\<open>try\<close>, the making of the resolver and its query for the root name
  servers, is one call to the outside. Whatever it raises is logged and turned into
  \<^verbatim>\<open>False\<close>; only the log call of the handler can raise out of the probe.
\<close>

definition test_dns_functionality :: "env \<Rightarrow> string \<Rightarrow> string \<Rightarrow> bool io" where
  "test_dns_functionality w instance_name namespace =
     io_catch
       (io_bind (io_call w (DnsQuery (instance_name @ ''-dns.'' @ namespace @ ''.svc.cluster.local'')))
          (\<lambda>_. io_return True))
       (\<lambda>e. io_bind (io_call w (LogError (''DNS test failed: '' @ exn_str e)))
          (\<lambda>_. io_return False))"

section \<open>The handlers of instances (operator/handlers/instance.py)\<close>

text \<open>
  A handler returns the status dictionary or raises. The first log call of each handler
  is outside its \<^verbatim>\<open>try\<close>.
\<close>

definition create_bind9_instance :: "env \<Rightarrow> pydict \<Rightarrow> string \<Rightarrow> string \<Rightarrow> string \<Rightarrow> pyval io" where
  "create_bind9_instance w spec name namespace uid =
     io_bind (io_call w (LogInfo (''Creating BIND9 instance '' @ name))) (\<lambda>_.
     io_catch
       (io_bind (io_lift (generate_bind9_config spec name namespace)) (\<lambda>config_data.
        io_bind (create_configmap w name namespace config_data uid ''config'') (\<lambda>_.
        io_bind (create_bind9_statefulset w spec name namespace uid) (\<lambda>_.
        io_bind (create_bind9_services w name namespace uid) (\<lambda>_.
        io_return (PDict [(''phase'', PStr ''Ready''),
                          (''message'', PStr ''BIND9 instance created successfully'')]))))))
       (\<lambda>e. io_bind (io_call w (LogError (''Failed to create BIND9 instance: '' @ exn_str e))) (\<lambda>_.
             io_raise (TemporaryError (''BIND9 creation failed: '' @ exn_str e) 30))))"

text \<open>
  The diff is a sequence of items, each of any value. The source unpacks every item into
  three, \<^verbatim>\<open>for field, _, _ in diff\<close>: a list or tuple gives its items, a string its
  characters and a dictionary its keys, and the unpacking raises \<^verbatim>\<open>ValueError\<close> when
  there are not exactly three and \<^verbatim>\<open>TypeError\<close> when the item cannot be iterated. A
  tuple is a \<open>PList\<close> here.
\<close>

definition py_iter :: "pyval \<Rightarrow> exn + pyval list" where
  "py_iter v =
     (case v of
        PList xs \<Rightarrow> Inr xs
      | PStr s \<Rightarrow> Inr (map (\<lambda>c. PStr [c]) s)
      | PDict d \<Rightarrow> Inr (map (\<lambda>kv. PStr (fst kv)) d)
      | _ \<Rightarrow> Inl (TypeError (''cannot unpack non-iterable '' @ type_name v @ '' object'')))"

definition unpack3 :: "pyval \<Rightarrow> exn + (pyval \<times> pyval \<times> pyval)" where
  "unpack3 v =
     bind (py_iter v) (\<lambda>xs.
       if length xs = 3 then Inr (xs ! 0, xs ! 1, xs ! 2)
       else if length xs < 3
         then Inl (ValueError (''not enough values to unpack (expected 3, got ''
                @ str_nat (length xs) @ '')''))
       else Inl (ValueError ''too many values to unpack (expected 3)''))"

text \<open>
  \<^verbatim>\<open>any(field in ["replicas", "image", "resources"] for field, _, _ in diff)\<close>: the items
  are read in order, the membership test compares by equality, and the first hit ends the
  reading, so that an item after it is not unpacked.
\<close>

fun diff_touches_workload :: "pyval list \<Rightarrow> exn + bool" where
  "diff_touches_workload [] = Inr False"
| "diff_touches_workload (item # rest) =
     (case unpack3 item of
        Inl e \<Rightarrow> Inl e
      | Inr (field, _, _) \<Rightarrow>
          if field \<in> set [PStr ''replicas'', PStr ''image'', PStr ''resources'']
          then Inr True
          else diff_touches_workload rest)"

definition update_bind9_instance ::
  "env \<Rightarrow> pydict \<Rightarrow> string \<Rightarrow> string \<Rightarrow> string \<Rightarrow> pyval list \<Rightarrow> pyval io" where
  "update_bind9_instance w spec name namespace uid diff =
     io_bind (io_call w (LogInfo (''Updating BIND9 instance '' @ name))) (\<lambda>_.
     io_catch
       (io_bind (io_lift (generate_bind9_config spec name namespace)) (\<lambda>config_data.
        io_bind (create_configmap w name namespace config_data uid ''config'') (\<lambda>_.
        io_bind (io_lift (diff_touches_workload diff)) (\<lambda>touched.
        io_bind (if touched
                 then create_bind9_statefulset w spec name namespace uid
                 else io_return ()) (\<lambda>_.
        io_return (PDict [(''phase'', PStr ''Ready''),
                          (''message'', PStr ''Updated successfully'')]))))))
       (\<lambda>e. io_raise (TemporaryError (''Update failed: '' @ exn_str e) 30)))"

definition delete_bind9_instance :: "env \<Rightarrow> pydict \<Rightarrow> string \<Rightarrow> string \<Rightarrow> pyval io" where
  "delete_bind9_instance w spec name namespace =
     io_bind (io_call w (LogInfo (''Deleting BIND9 instance '' @ name))) (\<lambda>_.
     io_return (PDict [(''message'', PStr ''BIND9 instance deleted'')]))"

text \<open>
  One turn of the daemon's loop, and the daemon. The loop ends when the stop signal is
  set or an exception leaves the \<^verbatim>\<open>except\<close> branch; it need not end, so it runs on fuel
  and \<open>None\<close> says that the fuel was used up with the daemon still running.
\<close>

definition monitor_cycle :: "env \<Rightarrow> string \<Rightarrow> string \<Rightarrow> unit io" where
  "monitor_cycle w name namespace =
     io_catch
       (io_bind (test_dns_functionality w name namespace) (\<lambda>ok.
        io_bind (if \<not> ok
                 then io_call w (LogError (''DNS functionality check failed for '' @ name))
                 else io_return ()) (\<lambda>_.
        io_call w (Wait 60))))
       (\<lambda>e. io_bind (io_call w (LogException (''Error in monitoring: '' @ exn_str e))) (\<lambda>_.
             io_call w (Wait 120)))"

fun monitor_loop ::
  "nat \<Rightarrow> env \<Rightarrow> string \<Rightarrow> string \<Rightarrow> call list \<Rightarrow> ((exn + unit) \<times> call list) option" where
  "monitor_loop 0 w name namespace h = None"
| "monitor_loop (Suc fuel) w name namespace h =
     (if stopped w h then Some (Inr (), h)
      else case monitor_cycle w name namespace h of
             (Inl e, h') \<Rightarrow> Some (Inl e, h')
           | (Inr _, h') \<Rightarrow> monitor_loop fuel w name namespace h')"

definition monitor_bind9_health ::
  "nat \<Rightarrow> env \<Rightarrow> string \<Rightarrow> string \<Rightarrow> call list \<Rightarrow> ((exn + unit) \<times> call list) option" where
  "monitor_bind9_health fuel w name namespace h =
     (case io_call w (LogInfo (''Starting health monitoring for '' @ name)) h of
        (Inl e, h') \<Rightarrow> Some (Inl e, h')
      | (Inr _, h') \<Rightarrow> monitor_loop fuel w name namespace h')"

section \<open>The handlers of zones (operator/handlers/zone.py)\<close>

text \<open>The resource's name and uid are the zone's; the zone name is read from the spec.\<close>

definition manage_dns_zone :: "env \<Rightarrow> pydict \<Rightarrow> string \<Rightarrow> string \<Rightarrow> string \<Rightarrow> pyval io" where
  "manage_dns_zone w spec name namespace uid =
     (let zone_name = py_get spec ''zoneName'' in
      io_bind (io_call w (LogInfo (''Managing DNS zone '' @ py_str zone_name))) (\<lambda>_.
      io_catch
        (io_bind (io_now w) (\<lambda>now.
         io_bind (io_lift (generate_zone_file now spec zone_name namespace)) (\<lambda>zone_content.
         io_bind (create_configmap w name namespace zone_content uid ''zone'') (\<lambda>_.
         io_bind (reload_bind9_config w
                    (py_get_default spec ''bind9InstanceRef'' (PStr ''default'')) namespace) (\<lambda>_.
         io_bind (io_now w) (\<lambda>today.
         io_return (PDict [(''phase'', PStr ''Active''),
                           (''serial'', PInt (date_serial today)),
                           (''zoneName'', zone_name)])))))))
        (\<lambda>e. io_raise (TemporaryError (''Zone management failed: '' @ exn_str e) 30))))"

definition delete_dns_zone :: "env \<Rightarrow> pydict \<Rightarrow> string \<Rightarrow> string \<Rightarrow> pyval io" where
  "delete_dns_zone w spec name namespace =
     io_bind (io_call w (LogInfo (''Deleting DNS zone '' @ name))) (\<lambda>_.
     io_bind (reload_bind9_config w
                (py_get_default spec ''bind9InstanceRef'' (PStr ''default'')) namespace) (\<lambda>_.
     io_return (PDict [(''message'', PStr ''Zone deleted'')])))"

section \<open>The handler of records (operator/handlers/records.py)\<close>

text \<open>
  The handler made by \<^verbatim>\<open>create_record_handler(record_type)\<close>. A \<^verbatim>\<open>ValueError\<close> out of the
  \<^verbatim>\<open>try\<close> becomes a \<open>PermanentError\<close>, any other exception a \<open>TemporaryError\<close> with the
  delay 30.
\<close>

definition handle_record :: "env \<Rightarrow> string \<Rightarrow> pydict \<Rightarrow> string \<Rightarrow> string \<Rightarrow> pyval io" where
  "handle_record w record_type spec name namespace =
     io_bind (io_call w (LogInfo (''Managing '' @ record_type @ '' record '' @ name))) (\<lambda>_.
     io_catch
       (io_bind (io_lift (validate_dns_record record_type spec)) (\<lambda>_.
        let zone_ref = py_get spec ''zone'' in
        io_bind (update_zone_file w zone_ref namespace name record_type spec) (\<lambda>_.
        io_return (PDict [(''status'', PStr ''active''), (''recordType'', PStr record_type)]))))
       (\<lambda>e. case e of
               ValueError _ \<Rightarrow> io_raise (PermanentError (''Invalid record: '' @ exn_str e))
             | _ \<Rightarrow> io_raise (TemporaryError (''Record management failed: '' @ exn_str e) 30)))"

text \<open>The record types the module makes a handler for.\<close>

definition record_types :: "string list" where
  "record_types = [''A'', ''AAAA'', ''CNAME'', ''MX'', ''TXT'', ''NS'', ''SRV'', ''PTR'', ''CAA'', ''NAPTR'']"

section \<open>The events the scheduler delivers\<close>

text \<open>
  Every way the scheduler enters the program: the registered handlers with their
  arguments, and one turn of the health daemon.
\<close>

datatype event =
    InstanceCreated pydict string string string
  | InstanceUpdated pydict string string string "pyval list"
  | InstanceDeleted pydict string string
  | ZoneChanged pydict string string string
  | ZoneDeleted pydict string string
  | RecordChanged string pydict string string
  | HealthCycle string string

fun dispatch :: "env \<Rightarrow> event \<Rightarrow> pyval io" where
  "dispatch w (InstanceCreated spec name namespace uid) = create_bind9_instance w spec name namespace uid"
| "dispatch w (InstanceUpdated spec name namespace uid diff) =
     update_bind9_instance w spec name namespace uid diff"
| "dispatch w (InstanceDeleted spec name namespace) = delete_bind9_instance w spec name namespace"
| "dispatch w (ZoneChanged spec name namespace uid) = manage_dns_zone w spec name namespace uid"
| "dispatch w (ZoneDeleted spec name namespace) = delete_dns_zone w spec name namespace"
| "dispatch w (RecordChanged record_type spec name namespace) =
     handle_record w record_type spec name namespace"
| "dispatch w (HealthCycle name namespace) =
     io_bind (monitor_cycle w name namespace) (\<lambda>_. io_return PNone)"

section \<open>A sample environment\<close>

text \<open>
  An object store that keeps what it is given and refuses a second create of the same
  kind, namespace and name with the status 409; every other call returns. It serves the
  examples below.
\<close>

fun created_before :: "call \<Rightarrow> call \<Rightarrow> bool" where
  "created_before (CreateConfigMap ns b) (CreateConfigMap ns' b') =
     (ns = ns' \<and> om_name (cm_metadata b) = om_name (cm_metadata b'))"
| "created_before (CreateStatefulSet ns b) (CreateStatefulSet ns' b') =
     (ns = ns' \<and> om_name (sts_metadata b) = om_name (sts_metadata b'))"
| "created_before (CreateService ns b) (CreateService ns' b') =
     (ns = ns' \<and> om_name (svc_metadata b) = om_name (svc_metadata b'))"
| "created_before c c' = False"

definition store_env :: env where
  "store_env =
     \<lparr>respond = (\<lambda>h c. if list_ex (created_before c) h
                         then Some (ApiException 409 ''Conflict'') else None),
      kubernetes_service_host = Some ''10.0.0.1'',
      stopped = (\<lambda>h. False),
      clock = (\<lambda>h. \<lparr>year = 2024, month = 1, day = 5\<rparr>)\<rparr>"

text \<open>The same store with a name server that does not answer.\<close>

definition dns_down_env :: env where
  "dns_down_env =
     store_env \<lparr>respond := (\<lambda>h c. case c of DnsQuery _ \<Rightarrow> Some (OtherException ''timed out'')
                                     | _ \<Rightarrow> None)\<rparr>"


text \<open>A store that refuses to create a ConfigMap with the status 500 and a StatefulSet
  with the status 403.\<close>

definition refusing_env :: env where
  "refusing_env =
     store_env \<lparr>respond := (\<lambda>h c. case c of
                                      CreateConfigMap _ _ \<Rightarrow> Some (ApiException 500 ''Internal Server Error'')
                                    | CreateStatefulSet _ _ \<Rightarrow> Some (ApiException 403 ''Forbidden'')
                                    | _ \<Rightarrow> None)\<rparr>"

section \<open>Reading the calls\<close>

text \<open>
  The bodies of the ConfigMap and StatefulSet requests in a sequence of calls, and the
  statement that a computation extends the calls made before it by calls that all satisfy
  a given property.
\<close>

fun configmap_of :: "call \<Rightarrow> config_map option" where
  "configmap_of (CreateConfigMap ns b) = Some b"
| "configmap_of (PatchConfigMap n ns b) = Some b"
| "configmap_of c = None"

fun statefulset_of :: "call \<Rightarrow> stateful_set option" where
  "statefulset_of (CreateStatefulSet ns b) = Some b"
| "statefulset_of (PatchStatefulSet n ns b) = Some b"
| "statefulset_of c = None"

definition configmaps_of :: "call list \<Rightarrow> config_map list" where
  "configmaps_of cs = List.map_filter configmap_of cs"

definition statefulsets_of :: "call list \<Rightarrow> stateful_set list" where
  "statefulsets_of cs = List.map_filter statefulset_of cs"

definition emits :: "(call \<Rightarrow> bool) \<Rightarrow> 'a io \<Rightarrow> bool" where
  "emits P m = (\<forall>h. \<exists>cs. snd (m h) = h @ cs \<and> list_all P cs)"

section \<open>Properties of the validator\<close>

lemma validate_unregistered:
  "map_of validators record_type = None \<Longrightarrow> validate_dns_record record_type spec = Inr ()"
  by (simp add: validate_dns_record_def)

lemma validate_a_record_falsy:
  "\<not> truthy (py_get spec ''ipv4Address'') \<Longrightarrow>
   validate_dns_record ''A'' spec =
     Inl (ValueError (''Invalid IPv4 address: '' @ py_str (py_get spec ''ipv4Address'')))"
  by (simp add: validate_dns_record_def validators_def validate_a_record_def)

text \<open>
  C1. The A record check accepts \<^verbatim>\<open>{ipv4Address: "192.0.2.1"}\<close> and rejects a spec
  without the field, but it also accepts \<^verbatim>\<open>{ipv4Address: "999.999.999.999"}\<close>: the
  pattern asks for one to three digits in each group and puts no bound on their value,
  so no \<^verbatim>\<open>ValueError\<close> is raised where tests/test_validation.py expects one.
\<close>

theorem validate_a_record_999_accepted:
  "validate_dns_record ''A'' [(''ipv4Address'', PStr ''192.0.2.1'')] = Inr () \<and>
   validate_dns_record ''A'' [(''ipv4Address'', PStr ''999.999.999.999'')] = Inr () \<and>
   validate_dns_record ''A'' [] = Inl (ValueError ''Invalid IPv4 address: None'')"
  by (simp add: validate_dns_record_def validators_def validate_a_record_def py_get_def
      re_match_ipv4_def dotted_quad_def digits_1_3_def is_digit_def)

text \<open>
  C7. A record of type TXT, NS, SRV, PTR, CAA or NAPTR passes validation whatever its
  spec holds, and no error is raised; the table of registered checks has the four
  entries A, AAAA, CNAME and MX and no other.
\<close>

theorem validate_unregistered_types_pass:
  "record_type \<in> set [''TXT'', ''NS'', ''SRV'', ''PTR'', ''CAA'', ''NAPTR''] \<Longrightarrow>
   validate_dns_record record_type spec = Inr () \<and>
   map fst validators = [''A'', ''AAAA'', ''CNAME'', ''MX'']"
  by (auto simp: validate_dns_record_def validators_def)

theorem validate_unregistered_types_pass_witness:
  "''TXT'' \<in> set [''TXT'', ''NS'', ''SRV'', ''PTR'', ''CAA'', ''NAPTR''] \<and>
   validate_dns_record ''TXT'' [(''text'', PStr ''v=spf1 -all'')] = Inr () \<and>
   map fst validators = [''A'', ''AAAA'', ''CNAME'', ''MX'']"
  using validate_unregistered_types_pass [of "''TXT''" "[(''text'', PStr ''v=spf1 -all'')]"]
  by simp

section \<open>Properties of the configuration synthesis\<close>

lemma py_format_append:
  "py_format (ps @ qs) kwargs =
     bind (py_format ps kwargs) (\<lambda>a. bind (py_format qs kwargs) (\<lambda>b. Inr (a @ b)))"
proof (induction ps)
  case Nil
  show ?case by (cases "py_format qs kwargs") (simp_all add: bind_def)
next
  case (Cons p ps)
  then show ?case
    by (cases p) (auto simp: bind_def split: sum.splits option.splits)
qed

lemma py_format_slot_sublist:
  assumes "py_format (ps @ [Text t1, Slot k, Text t2] @ qs) kwargs = Inr text"
    and "map_of kwargs k = Some v"
  shows "sublist (t1 @ v @ t2) text"
proof -
  from assms obtain a b where "text = a @ (t1 @ v @ t2) @ b"
    by (auto simp: py_format_append bind_def split: sum.splits)
  then show ?thesis by (auto simp: sublist_def)
qed

lemma py_format_name_sublist:
  assumes "py_format (ps @ [Slot k] @ qs) kwargs = Inr text"
    and "map_of kwargs k = Some v"
  shows "sublist v text"
proof -
  from assms obtain a b where "text = a @ v @ b"
    by (auto simp: py_format_append bind_def split: sum.splits)
  then show ?thesis by (auto simp: sublist_def)
qed

lemma template_allow_query:
  "BIND9_CONFIG_TEMPLATE =
     take 9 BIND9_CONFIG_TEMPLATE @
     [Text ''    allow-query { '', Slot ''allow_query'', Text ''; };\<newline>''] @
     drop 12 BIND9_CONFIG_TEMPLATE"
  by (simp add: BIND9_CONFIG_TEMPLATE_def)

lemma template_recursion:
  "BIND9_CONFIG_TEMPLATE =
     take 15 BIND9_CONFIG_TEMPLATE @
     [Text ''    recursion '', Slot ''recursion'', Text '';\<newline>''] @
     drop 18 BIND9_CONFIG_TEMPLATE"
  by (simp add: BIND9_CONFIG_TEMPLATE_def)

lemma template_instance_name:
  "BIND9_CONFIG_TEMPLATE =
     take 2 BIND9_CONFIG_TEMPLATE @ [Slot ''instance_name''] @ drop 3 BIND9_CONFIG_TEMPLATE"
  by (simp add: BIND9_CONFIG_TEMPLATE_def)

lemma generate_bind9_config_slots:
  assumes "generate_bind9_config spec name namespace = Inr text"
  obtains config allow_query allow_transfer recursion enabled where
    "py_get_default spec ''config'' (PDict []) = PDict config"
    "py_join '' '' (py_get_default config ''allowQuery'' (PList [PStr ''any''])) = Inr allow_query"
    "py_format BIND9_CONFIG_TEMPLATE
        [(''instance_name'', name),
         (''allow_query'', allow_query),
         (''allow_transfer'', allow_transfer),
         (''recursion'', if truthy (py_get_default config ''recursion'' (PBool False))
                         then ''yes'' else ''no''),
         (''dnssec_validation'', if truthy enabled then ''auto'' else ''no'')] = Inr text"
  using assms
  by (auto simp: generate_bind9_config_def py_attr_get_def bind_def Let_def
      split: sum.splits pyval.splits)

lemma default_allow_query:
  assumes "generate_bind9_config spec name namespace = Inr text"
    and "py_get_default spec ''config'' (PDict []) = PDict config"
    and "map_of config ''allowQuery'' = None"
  shows "sublist ''    allow-query { any; };\<newline>'' text"
proof -
  from assms(1) obtain config' allow_query allow_transfer recursion enabled where
    c: "py_get_default spec ''config'' (PDict []) = PDict config'"
    and q: "py_join '' '' (py_get_default config' ''allowQuery'' (PList [PStr ''any''])) = Inr allow_query"
    and f: "py_format BIND9_CONFIG_TEMPLATE
        [(''instance_name'', name),
         (''allow_query'', allow_query),
         (''allow_transfer'', allow_transfer),
         (''recursion'', if truthy (py_get_default config' ''recursion'' (PBool False))
                         then ''yes'' else ''no''),
         (''dnssec_validation'', if truthy enabled then ''auto'' else ''no'')] = Inr text"
    by (rule generate_bind9_config_slots)
  from c assms(2) have "config' = config" by simp
  with q assms(3) have "allow_query = ''any''"
    by (simp add: py_get_default_def py_join_def bind_def)
  with f have "py_format
      (take 9 BIND9_CONFIG_TEMPLATE @
       [Text ''    allow-query { '', Slot ''allow_query'', Text ''; };\<newline>''] @
       drop 12 BIND9_CONFIG_TEMPLATE)
      [(''instance_name'', name),
       (''allow_query'', ''any''),
       (''allow_transfer'', allow_transfer),
       (''recursion'', if truthy (py_get_default config' ''recursion'' (PBool False))
                       then ''yes'' else ''no''),
       (''dnssec_validation'', if truthy enabled then ''auto'' else ''no'')] = Inr text"
    unfolding template_allow_query [symmetric] by simp
  then have "sublist (''    allow-query { '' @ ''any'' @ ''; };\<newline>'') text"
    by (rule py_format_slot_sublist) simp
  then show ?thesis by simp
qed

lemma default_recursion:
  assumes "generate_bind9_config spec name namespace = Inr text"
    and "py_get_default spec ''config'' (PDict []) = PDict config"
    and "map_of config ''recursion'' = None"
  shows "sublist ''    recursion no;\<newline>'' text"
proof -
  from assms(1) obtain config' allow_query allow_transfer recursion enabled where
    c: "py_get_default spec ''config'' (PDict []) = PDict config'"
    and f: "py_format BIND9_CONFIG_TEMPLATE
        [(''instance_name'', name),
         (''allow_query'', allow_query),
         (''allow_transfer'', allow_transfer),
         (''recursion'', if truthy (py_get_default config' ''recursion'' (PBool False))
                         then ''yes'' else ''no''),
         (''dnssec_validation'', if truthy enabled then ''auto'' else ''no'')] = Inr text"
    by (rule generate_bind9_config_slots)
  from c assms(2) have "config' = config" by simp
  with assms(3) have "\<not> truthy (py_get_default config' ''recursion'' (PBool False))"
    by (simp add: py_get_default_def)
  with f have "py_format
      (take 15 BIND9_CONFIG_TEMPLATE @
       [Text ''    recursion '', Slot ''recursion'', Text '';\<newline>''] @
       drop 18 BIND9_CONFIG_TEMPLATE)
      [(''instance_name'', name),
       (''allow_query'', allow_query),
       (''allow_transfer'', allow_transfer),
       (''recursion'', ''no''),
       (''dnssec_validation'', if truthy enabled then ''auto'' else ''no'')] = Inr text"
    unfolding template_recursion [symmetric] by simp
  then have "sublist (''    recursion '' @ ''no'' @ '';\<newline>'') text"
    by (rule py_format_slot_sublist) simp
  then show ?thesis by simp
qed

lemma name_in_text:
  assumes "generate_bind9_config spec name namespace = Inr text"
  shows "sublist name text"
proof -
  from assms obtain config' allow_query allow_transfer recursion enabled where
    f: "py_format BIND9_CONFIG_TEMPLATE
        [(''instance_name'', name),
         (''allow_query'', allow_query),
         (''allow_transfer'', allow_transfer),
         (''recursion'', if truthy (py_get_default config' ''recursion'' (PBool False))
                         then ''yes'' else ''no''),
         (''dnssec_validation'', if truthy enabled then ''auto'' else ''no'')] = Inr text"
    by (rule generate_bind9_config_slots)
  then have "py_format
      (take 2 BIND9_CONFIG_TEMPLATE @ [Slot ''instance_name''] @ drop 3 BIND9_CONFIG_TEMPLATE)
      [(''instance_name'', name),
       (''allow_query'', allow_query),
       (''allow_transfer'', allow_transfer),
       (''recursion'', if truthy (py_get_default config' ''recursion'' (PBool False))
                       then ''yes'' else ''no''),
       (''dnssec_validation'', if truthy enabled then ''auto'' else ''no'')] = Inr text"
    unfolding template_instance_name [symmetric] .
  then show ?thesis
    by (rule py_format_name_sublist) simp
qed

lemma no_config_succeeds:
  "map_of spec ''config'' = None \<Longrightarrow> \<exists>text. generate_bind9_config spec name namespace = Inr text"
  by (simp add: generate_bind9_config_def py_get_default_def py_attr_get_def py_join_def
      bind_def BIND9_CONFIG_TEMPLATE_def)

text \<open>
  C8. For the spec \<^verbatim>\<open>{config: {recursion: false, allowQuery: ["any"], allowTransfer: ["none"]}}\<close>
  and the name \<^verbatim>\<open>test-instance\<close> the synthesis returns a text that contains
  \<^verbatim>\<open>test-instance\<close>, \<^verbatim>\<open>recursion no\<close> and \<^verbatim>\<open>allow-query\<close>. Every text the
  synthesis returns contains the instance name; it contains the line
  \<^verbatim>\<open>allow-query { any; };\<close> when the config has no \<^verbatim>\<open>allowQuery\<close>, and the line
  \<^verbatim>\<open>recursion no;\<close> when the config has no \<^verbatim>\<open>recursion\<close>. A spec with no
  \<^verbatim>\<open>config\<close> at all always has a text.
\<close>

theorem generate_bind9_config_example_and_defaults:
  "(\<exists>text. generate_bind9_config
       [(''config'', PDict [(''recursion'', PBool False), (''allowQuery'', PList [PStr ''any'']),
          (''allowTransfer'', PList [PStr ''none''])])] ''test-instance'' namespace = Inr text \<and>
     sublist ''test-instance'' text \<and> sublist ''recursion no'' text \<and>
     sublist ''allow-query'' text) \<and>
   (generate_bind9_config spec name namespace = Inr text \<and>
    py_get_default spec ''config'' (PDict []) = PDict config \<longrightarrow>
      sublist name text \<and>
      (map_of config ''allowQuery'' = None \<longrightarrow>
         sublist ''    allow-query { any; };\<newline>'' text) \<and>
      (map_of config ''recursion'' = None \<longrightarrow>
         sublist ''    recursion no;\<newline>'' text)) \<and>
   (map_of spec ''config'' = None \<longrightarrow>
      (\<exists>text. generate_bind9_config spec name namespace = Inr text))"
proof (intro conjI impI)
  show "\<exists>text. generate_bind9_config
       [(''config'', PDict [(''recursion'', PBool False), (''allowQuery'', PList [PStr ''any'']),
          (''allowTransfer'', PList [PStr ''none''])])] ''test-instance'' namespace = Inr text \<and>
     sublist ''test-instance'' text \<and> sublist ''recursion no'' text \<and>
     sublist ''allow-query'' text"
    by (simp add: generate_bind9_config_def py_get_default_def py_attr_get_def py_join_def
        bind_def BIND9_CONFIG_TEMPLATE_def sublist_Cons_right)
next
  assume a: "generate_bind9_config spec name namespace = Inr text \<and>
    py_get_default spec ''config'' (PDict []) = PDict config"
  then show "sublist name text"
    by (blast intro: name_in_text)
  {
    assume "map_of config ''allowQuery'' = None"
    with a show "sublist ''    allow-query { any; };\<newline>'' text"
      by (blast intro: default_allow_query)
  }
  {
    assume "map_of config ''recursion'' = None"
    with a show "sublist ''    recursion no;\<newline>'' text"
      by (blast intro: default_recursion)
  }
next
  assume "map_of spec ''config'' = None"
  then show "\<exists>text. generate_bind9_config spec name namespace = Inr text"
    by (rule no_config_succeeds)
qed

theorem generate_bind9_config_example_and_defaults_witness:
  "py_get_default [(''config'', PDict [(''allowTransfer'', PList [PStr ''10.0.0.0/8''])])]
     ''config'' (PDict []) = PDict [(''allowTransfer'', PList [PStr ''10.0.0.0/8''])] \<and>
   map_of [(''allowTransfer'', PList [PStr ''10.0.0.0/8''])] ''allowQuery'' = None \<and>
   map_of [(''allowTransfer'', PList [PStr ''10.0.0.0/8''])] ''recursion'' = None \<and>
   (\<exists>text. generate_bind9_config
        [(''config'', PDict [(''allowTransfer'', PList [PStr ''10.0.0.0/8''])])]
        ''ns1'' ''default'' = Inr text \<and>
      sublist ''ns1'' text \<and>
      sublist ''    allow-query { any; };\<newline>'' text \<and>
      sublist ''    allow-transfer { 10.0.0.0/8; };\<newline>'' text \<and>
      sublist ''    recursion no;\<newline>'' text) \<and>
   (\<exists>text. generate_bind9_config [(''replicas'', PInt 2)] ''ns1'' ''default'' = Inr text)"
  using generate_bind9_config_example_and_defaults
    [where spec = "[(''config'', PDict [(''allowTransfer'', PList [PStr ''10.0.0.0/8''])])]"
       and config = "[(''allowTransfer'', PList [PStr ''10.0.0.0/8''])]"
       and name = "''ns1''" and namespace = "''default''"]
    generate_bind9_config_example_and_defaults
    [where spec = "[(''replicas'', PInt 2)]" and name = "''ns1''" and namespace = "''default''"]
  by (simp add: generate_bind9_config_def py_get_default_def py_attr_get_def py_join_def
      bind_def BIND9_CONFIG_TEMPLATE_def sublist_Cons_right)

text \<open>
  C2 as stated fails: without a serial in the SOA record the zone file carries the date of
  the call, so the same spec gives two different texts on two different days.
\<close>

theorem generate_zone_file_clock_counterexample:
  "generate_zone_file \<lparr>year = 2024, month = 1, day = 1\<rparr> [(''zoneName'', PStr ''example.com'')]
     (PStr ''example.com'') ''default'' \<noteq>
   generate_zone_file \<lparr>year = 2024, month = 1, day = 2\<rparr> [(''zoneName'', PStr ''example.com'')]
     (PStr ''example.com'') ''default''"
  by (simp add: generate_zone_file_def py_get_default_def py_attr_get_def py_replace_def
      bind_def ZONE_FILE_TEMPLATE_def date_serial_def str_int_def str_nat.simps digit_char_def)

text \<open>
  C2, as the code has it. The instance configuration is a function of the spec and the
  instance name alone, and the zone file does not depend on the clock when the SOA record
  of the spec carries a serial.
\<close>

theorem synthesis_deterministic_with_serial:
  assumes "map_of spec ''soaRecord'' = Some (PDict soa)"
    and "map_of soa ''serial'' = Some serial"
  shows "generate_zone_file now spec zone_name namespace =
           generate_zone_file now' spec zone_name namespace' \<and>
         generate_bind9_config instance_spec name namespace =
           generate_bind9_config instance_spec name namespace'"
  using assms
  by (simp add: generate_zone_file_def generate_bind9_config_def py_get_default_def
      py_attr_get_def)

theorem synthesis_deterministic_with_serial_witness:
  "generate_zone_file \<lparr>year = 2024, month = 1, day = 1\<rparr>
     [(''zoneName'', PStr ''example.com''), (''soaRecord'', PDict [(''serial'', PInt 2024010101)])]
     (PStr ''example.com'') ''default'' =
   generate_zone_file \<lparr>year = 2025, month = 6, day = 30\<rparr>
     [(''zoneName'', PStr ''example.com''), (''soaRecord'', PDict [(''serial'', PInt 2024010101)])]
     (PStr ''example.com'') ''other'' \<and>
   generate_bind9_config [] ''ns1'' ''default'' = generate_bind9_config [] ''ns1'' ''other''"
  using synthesis_deterministic_with_serial
    [where spec = "[(''zoneName'', PStr ''example.com''),
                    (''soaRecord'', PDict [(''serial'', PInt 2024010101)])]"
       and soa = "[(''serial'', PInt 2024010101)]" and serial = "PInt 2024010101"
       and now = "\<lparr>year = 2024, month = 1, day = 1\<rparr>"
       and now' = "\<lparr>year = 2025, month = 6, day = 30\<rparr>"
       and zone_name = "PStr ''example.com''" and namespace = "''default''"
       and namespace' = "''other''" and instance_spec = "[]" and name = "''ns1''"]
  by simp

section \<open>The calls a computation can make\<close>

lemmas io_defs = io_return_def io_raise_def io_lift_def io_call_def io_now_def io_bind_def
  io_catch_def Let_def

lemma emits_new_calls: "emits P m \<Longrightarrow> list_all P (new_calls m h)"
  by (auto simp: emits_def new_calls_def dest!: spec [of _ h])

lemma emits_return: "emits P (io_return x)"
  by (simp add: emits_def io_return_def)

lemma emits_raise: "emits P (io_raise e)"
  by (simp add: emits_def io_raise_def)

lemma emits_lift: "emits P (io_lift r)"
  by (simp add: emits_def io_lift_def)

lemma emits_now: "emits P (io_now w)"
  by (simp add: emits_def io_now_def)

lemma emits_call: "P c \<Longrightarrow> emits P (io_call w c)"
  by (simp add: emits_def io_call_def split: option.split)

lemma emits_bind:
  assumes "emits P m" and "\<And>x. emits P (f x)"
  shows "emits P (io_bind m f)"
  unfolding emits_def
proof
  fix h
  from assms(1) obtain cs where m: "snd (m h) = h @ cs" "list_all P cs"
    by (auto simp: emits_def)
  show "\<exists>cs. snd (io_bind m f h) = h @ cs \<and> list_all P cs"
  proof (cases "m h")
    case (Pair r h')
    with m have h': "h' = h @ cs" by simp
    show ?thesis
    proof (cases r)
      case (Inl e)
      with Pair m show ?thesis by (simp add: io_bind_def)
    next
      case (Inr x)
      from assms(2) [of x] obtain ds where "snd (f x h') = h' @ ds" "list_all P ds"
        by (auto simp: emits_def)
      with Pair Inr h' m show ?thesis by (simp add: io_bind_def)
    qed
  qed
qed

lemma emits_catch:
  assumes "emits P m" and "\<And>e. emits P (f e)"
  shows "emits P (io_catch m f)"
  unfolding emits_def
proof
  fix h
  from assms(1) obtain cs where m: "snd (m h) = h @ cs" "list_all P cs"
    by (auto simp: emits_def)
  show "\<exists>cs. snd (io_catch m f h) = h @ cs \<and> list_all P cs"
  proof (cases "m h")
    case (Pair r h')
    with m have h': "h' = h @ cs" by simp
    show ?thesis
    proof (cases r)
      case (Inr x)
      with Pair m show ?thesis by (simp add: io_catch_def)
    next
      case (Inl e)
      from assms(2) [of e] obtain ds where "snd (f e h') = h' @ ds" "list_all P ds"
        by (auto simp: emits_def)
      with Pair Inl h' m show ?thesis by (simp add: io_catch_def)
    qed
  qed
qed

lemmas emits_intros = emits_return emits_raise emits_lift emits_now emits_call emits_bind
  emits_catch

lemma emits_client:
  "P LoadInclusterConfig \<Longrightarrow> P LoadKubeConfig \<Longrightarrow> emits P (get_k8s_client w)"
  by (auto simp: get_k8s_client_def intro!: emits_intros)

lemma emits_create_configmap:
  assumes "P LoadInclusterConfig" "P LoadKubeConfig"
    and "P (CreateConfigMap namespace (configmap_body name namespace data uid cm_type))"
    and "P (PatchConfigMap (name @ ''-'' @ cm_type) namespace
              (configmap_body name namespace data uid cm_type))"
  shows "emits P (create_configmap w name namespace data uid cm_type)"
  using assms
  by (auto simp: create_configmap_def Let_def intro!: emits_intros emits_client split: exn.split)

lemma emits_create_statefulset:
  assumes "P LoadInclusterConfig" "P LoadKubeConfig" "\<And>m. P (LogInfo m)"
    and "P (CreateStatefulSet namespace (bind9_statefulset spec name namespace uid))"
    and "P (PatchStatefulSet (name @ ''-bind9'') namespace
              (bind9_statefulset spec name namespace uid))"
  shows "emits P (create_bind9_statefulset w spec name namespace uid)"
  using assms
  by (auto simp: create_bind9_statefulset_def Let_def intro!: emits_intros emits_client
      split: exn.split)

lemma emits_create_services:
  assumes "P LoadInclusterConfig" "P LoadKubeConfig"
    and "P (CreateService namespace (bind9_service name namespace uid))"
  shows "emits P (create_bind9_services w name namespace uid)"
  using assms
  by (auto simp: create_bind9_services_def Let_def intro!: emits_intros emits_client
      split: exn.split)

section \<open>Properties of the handlers\<close>

lemmas eval_defs = io_defs store_env_def dns_down_env_def get_k8s_client_def
  create_configmap_def create_bind9_statefulset_def create_bind9_services_def
  new_calls_def configmaps_of_def statefulsets_of_def

lemmas cfg_eval = generate_bind9_config_def py_get_default_def py_attr_get_def py_join_def
  bind_def BIND9_CONFIG_TEMPLATE_def

lemma set_map_filter: "set (List.map_filter f xs) = {y. \<exists>x\<in>set xs. f x = Some y}"
  by (induction xs) (auto split: option.splits)

lemma configmaps_of_emits:
  "emits (\<lambda>c. \<forall>b. configmap_of c = Some b \<longrightarrow> Q b) m \<Longrightarrow>
   cm \<in> set (configmaps_of (new_calls m h)) \<Longrightarrow> Q cm"
  by (auto simp: configmaps_of_def set_map_filter list_all_iff dest!: emits_new_calls [where h = h])

lemma statefulsets_of_emits:
  "emits (\<lambda>c. \<forall>b. statefulset_of c = Some b \<longrightarrow> Q b) m \<Longrightarrow>
   st \<in> set (statefulsets_of (new_calls m h)) \<Longrightarrow> Q st"
  by (auto simp: statefulsets_of_def set_map_filter list_all_iff dest!: emits_new_calls [where h = h])

lemmas emits_artifacts = emits_create_configmap emits_create_statefulset emits_create_services

lemma emits_manage_dns_zone:
  "emits (\<lambda>c. \<forall>b. configmap_of c = Some b \<longrightarrow>
      (\<exists>data. b = configmap_body name namespace data uid ''zone''))
     (manage_dns_zone w spec name namespace uid)"
  by (auto simp: manage_dns_zone_def Let_def reload_bind9_config_def
      intro!: emits_intros emits_artifacts)





lemmas handler_defs = create_bind9_instance_def update_bind9_instance_def
  delete_bind9_instance_def manage_dns_zone_def delete_dns_zone_def handle_record_def
  monitor_cycle_def test_dns_functionality_def reload_bind9_config_def update_zone_file_def

lemma emits_dispatch_statefulset:
  "emits (\<lambda>c. \<forall>b. statefulset_of c = Some b \<longrightarrow>
      (\<exists>spec n ns uid. b = bind9_statefulset spec n ns uid)) (dispatch w ev)"
  by (cases ev)
     (auto simp: handler_defs Let_def intro!: emits_intros emits_artifacts split: exn.split,
      blast+)

lemma emits_instance_configmap:
  "emits (\<lambda>c. \<forall>b. configmap_of c = Some b \<longrightarrow>
      (\<exists>data. b = configmap_body name namespace data uid ''config''))
     (create_bind9_instance w spec name namespace uid)"
  "emits (\<lambda>c. \<forall>b. configmap_of c = Some b \<longrightarrow>
      (\<exists>data. b = configmap_body name namespace data uid ''config''))
     (update_bind9_instance w spec name namespace uid diff)"
  by (auto simp: handler_defs Let_def intro!: emits_intros emits_artifacts)

lemma emits_no_configmap:
  "emits (\<lambda>c. \<forall>b. configmap_of c = Some b \<longrightarrow> False) (delete_bind9_instance w spec name namespace)"
  "emits (\<lambda>c. \<forall>b. configmap_of c = Some b \<longrightarrow> False) (delete_dns_zone w spec name namespace)"
  "emits (\<lambda>c. \<forall>b. configmap_of c = Some b \<longrightarrow> False) (handle_record w record_type spec name namespace)"
  "emits (\<lambda>c. \<forall>b. configmap_of c = Some b \<longrightarrow> False) (monitor_cycle w name namespace)"
  by (auto simp: handler_defs Let_def intro!: emits_intros split: exn.split)

lemma config_not_zones: "n @ ''-config'' \<noteq> n' @ ''-zones''"
proof
  assume "n @ ''-config'' = n' @ ''-zones''"
  then have "last (n @ ''-config'') = last (n' @ ''-zones'')" by simp
  then show False by simp
qed

lemma zone_not_zones: "n @ ''-zone'' \<noteq> n' @ ''-zones''"
proof
  assume "n @ ''-zone'' = n' @ ''-zones''"
  then have "last (n @ ''-zone'') = last (n' @ ''-zones'')" by simp
  then show False by simp
qed

lemma dispatch_configmap_name:
  assumes "cm \<in> set (configmaps_of (new_calls (dispatch w ev) h))"
  shows "(\<exists>spec n ns uid. (ev = InstanceCreated spec n ns uid \<or>
              (\<exists>diff. ev = InstanceUpdated spec n ns uid diff)) \<and>
            om_name (cm_metadata cm) = Some (n @ ''-config'')) \<or>
         (\<exists>spec n ns uid. ev = ZoneChanged spec n ns uid \<and>
            om_name (cm_metadata cm) = Some (n @ ''-zone''))"
proof (cases ev)
  case (InstanceCreated spec n ns uid)
  with assms configmaps_of_emits [OF emits_instance_configmap(1)] show ?thesis
    by (fastforce simp: configmap_body_def)
next
  case (InstanceUpdated spec n ns uid diff)
  with assms configmaps_of_emits [OF emits_instance_configmap(2)] show ?thesis
    by (fastforce simp: configmap_body_def)
next
  case (InstanceDeleted spec n ns)
  with assms configmaps_of_emits [OF emits_no_configmap(1)] show ?thesis by fastforce
next
  case (ZoneChanged spec n ns uid)
  with assms configmaps_of_emits [OF emits_manage_dns_zone] show ?thesis
    by (fastforce simp: configmap_body_def)
next
  case (ZoneDeleted spec n ns)
  with assms configmaps_of_emits [OF emits_no_configmap(2)] show ?thesis by fastforce
next
  case (RecordChanged rt spec n ns)
  with assms configmaps_of_emits [OF emits_no_configmap(3)] show ?thesis by fastforce
next
  case (HealthCycle n ns)
  have "emits (\<lambda>c. \<forall>b. configmap_of c = Some b \<longrightarrow> False)
          (io_bind (monitor_cycle w n ns) (\<lambda>_. io_return PNone))"
    by (intro emits_bind emits_no_configmap(4) emits_return)
  with assms HealthCycle configmaps_of_emits show ?thesis by fastforce
qed












text \<open>
  C5. With the client loaded, every outcome of the create. The upsert of a ConfigMap and
  of a StatefulSet sends a create; when the create is refused with the status 409 it
  sends a patch of the same name, namespace and body and ends as the patch ends. A create
  refused with any other status is dropped: no patch is sent and the function returns as
  if the artifact had been written, where the claim has the error surfaced. An exception
  of the create that is not an \<^verbatim>\<open>ApiException\<close> is raised to the caller. (The log call
  after the StatefulSet create is inside the same \<^verbatim>\<open>try\<close> and is treated alike.) The
  Service is only created: a 409 leaves it as it is and the function returns with no
  further call, and any other exception of the create is raised to the caller.
\<close>

theorem upsert_on_conflict:
  assumes client: "get_k8s_client w h = (Inr (), h1)"
  shows
   "(respond w h1 (CreateConfigMap namespace (configmap_body name namespace data uid cm_type)) = None \<longrightarrow>
       create_configmap w name namespace data uid cm_type h =
         (Inr (), h1 @ [CreateConfigMap namespace (configmap_body name namespace data uid cm_type)])) \<and>
    (respond w h1 (CreateConfigMap namespace (configmap_body name namespace data uid cm_type))
         = Some (ApiException 409 m) \<longrightarrow>
       create_configmap w name namespace data uid cm_type h =
         io_call w (PatchConfigMap (name @ ''-'' @ cm_type) namespace
                      (configmap_body name namespace data uid cm_type))
           (h1 @ [CreateConfigMap namespace (configmap_body name namespace data uid cm_type)])) \<and>
    (respond w h1 (CreateConfigMap namespace (configmap_body name namespace data uid cm_type))
         = Some (ApiException status m) \<and> status \<noteq> 409 \<longrightarrow>
       create_configmap w name namespace data uid cm_type h =
         (Inr (), h1 @ [CreateConfigMap namespace (configmap_body name namespace data uid cm_type)])) \<and>
    (respond w h1 (CreateConfigMap namespace (configmap_body name namespace data uid cm_type))
         = Some e \<and> (\<forall>st m. e \<noteq> ApiException st m) \<longrightarrow>
       create_configmap w name namespace data uid cm_type h =
         (Inl e, h1 @ [CreateConfigMap namespace (configmap_body name namespace data uid cm_type)])) \<and>
    (respond w h1 (CreateStatefulSet namespace (bind9_statefulset spec name namespace uid)) = None \<and>
     respond w (h1 @ [CreateStatefulSet namespace (bind9_statefulset spec name namespace uid)])
        (LogInfo (''StatefulSet '' @ name @ ''-bind9 created'')) = None \<longrightarrow>
       create_bind9_statefulset w spec name namespace uid h =
         (Inr (), h1 @ [CreateStatefulSet namespace (bind9_statefulset spec name namespace uid),
                        LogInfo (''StatefulSet '' @ name @ ''-bind9 created'')])) \<and>
    (respond w h1 (CreateStatefulSet namespace (bind9_statefulset spec name namespace uid))
         = Some (ApiException 409 m) \<longrightarrow>
       create_bind9_statefulset w spec name namespace uid h =
         io_call w (PatchStatefulSet (name @ ''-bind9'') namespace
                      (bind9_statefulset spec name namespace uid))
           (h1 @ [CreateStatefulSet namespace (bind9_statefulset spec name namespace uid)])) \<and>
    (respond w h1 (CreateStatefulSet namespace (bind9_statefulset spec name namespace uid))
         = Some (ApiException status m) \<and> status \<noteq> 409 \<longrightarrow>
       create_bind9_statefulset w spec name namespace uid h =
         (Inr (), h1 @ [CreateStatefulSet namespace (bind9_statefulset spec name namespace uid)])) \<and>
    (respond w h1 (CreateStatefulSet namespace (bind9_statefulset spec name namespace uid))
         = Some e \<and> (\<forall>st m. e \<noteq> ApiException st m) \<longrightarrow>
       create_bind9_statefulset w spec name namespace uid h =
         (Inl e, h1 @ [CreateStatefulSet namespace (bind9_statefulset spec name namespace uid)])) \<and>
    (respond w h1 (CreateStatefulSet namespace (bind9_statefulset spec name namespace uid)) = None \<and>
     respond w (h1 @ [CreateStatefulSet namespace (bind9_statefulset spec name namespace uid)])
        (LogInfo (''StatefulSet '' @ name @ ''-bind9 created'')) = Some (ApiException 409 m) \<longrightarrow>
       create_bind9_statefulset w spec name namespace uid h =
         io_call w (PatchStatefulSet (name @ ''-bind9'') namespace
                      (bind9_statefulset spec name namespace uid))
           (h1 @ [CreateStatefulSet namespace (bind9_statefulset spec name namespace uid),
                  LogInfo (''StatefulSet '' @ name @ ''-bind9 created'')])) \<and>
    (respond w h1 (CreateStatefulSet namespace (bind9_statefulset spec name namespace uid)) = None \<and>
     respond w (h1 @ [CreateStatefulSet namespace (bind9_statefulset spec name namespace uid)])
        (LogInfo (''StatefulSet '' @ name @ ''-bind9 created'')) = Some (ApiException status m) \<and>
     status \<noteq> 409 \<longrightarrow>
       create_bind9_statefulset w spec name namespace uid h =
         (Inr (), h1 @ [CreateStatefulSet namespace (bind9_statefulset spec name namespace uid),
                        LogInfo (''StatefulSet '' @ name @ ''-bind9 created'')])) \<and>
    (respond w h1 (CreateStatefulSet namespace (bind9_statefulset spec name namespace uid)) = None \<and>
     respond w (h1 @ [CreateStatefulSet namespace (bind9_statefulset spec name namespace uid)])
        (LogInfo (''StatefulSet '' @ name @ ''-bind9 created'')) = Some e \<and>
     (\<forall>st m. e \<noteq> ApiException st m) \<longrightarrow>
       create_bind9_statefulset w spec name namespace uid h =
         (Inl e, h1 @ [CreateStatefulSet namespace (bind9_statefulset spec name namespace uid),
                       LogInfo (''StatefulSet '' @ name @ ''-bind9 created'')])) \<and>
    (respond w h1 (CreateService namespace (bind9_service name namespace uid)) = None \<longrightarrow>
       create_bind9_services w name namespace uid h =
         (Inr (), h1 @ [CreateService namespace (bind9_service name namespace uid)])) \<and>
    (respond w h1 (CreateService namespace (bind9_service name namespace uid))
         = Some (ApiException 409 m) \<longrightarrow>
       create_bind9_services w name namespace uid h =
         (Inr (), h1 @ [CreateService namespace (bind9_service name namespace uid)])) \<and>
    (respond w h1 (CreateService namespace (bind9_service name namespace uid)) = Some e \<and>
       (\<forall>m. e \<noteq> ApiException 409 m) \<longrightarrow>
       create_bind9_services w name namespace uid h =
         (Inl e, h1 @ [CreateService namespace (bind9_service name namespace uid)]))"
  using client
  by (intro conjI impI)
     (auto simp add: create_configmap_def create_bind9_statefulset_def
        create_bind9_services_def io_defs split: exn.splits)

theorem upsert_on_conflict_witness:
  "get_k8s_client refusing_env [] = (Inr (), [LoadInclusterConfig]) \<and>
   create_configmap refusing_env ''ns1'' ''default'' ''options {};'' ''uid-1'' ''config'' [] =
     (Inr (), [LoadInclusterConfig,
               CreateConfigMap ''default''
                 (configmap_body ''ns1'' ''default'' ''options {};'' ''uid-1'' ''config'')]) \<and>
   create_bind9_statefulset refusing_env [] ''ns1'' ''default'' ''uid-1'' [] =
     (Inr (), [LoadInclusterConfig,
               CreateStatefulSet ''default'' (bind9_statefulset [] ''ns1'' ''default'' ''uid-1'')]) \<and>
   fst (create_bind9_instance refusing_env [] ''ns1'' ''default'' ''uid-1'' []) =
     Inr (PDict [(''phase'', PStr ''Ready''),
                 (''message'', PStr ''BIND9 instance created successfully'')]) \<and>
   create_configmap store_env ''ns1'' ''default'' ''options {};'' ''uid-1'' ''config'' [] =
     (Inr (), [LoadInclusterConfig,
               CreateConfigMap ''default''
                 (configmap_body ''ns1'' ''default'' ''options {};'' ''uid-1'' ''config'')]) \<and>
   create_configmap store_env ''ns1'' ''default'' ''options {};'' ''uid-1'' ''config''
     [CreateConfigMap ''default''
        (configmap_body ''ns1'' ''default'' ''options { recursion no; };'' ''uid-1'' ''config'')] =
     (Inr (), [CreateConfigMap ''default''
                 (configmap_body ''ns1'' ''default'' ''options { recursion no; };'' ''uid-1'' ''config''),
               LoadInclusterConfig,
               CreateConfigMap ''default''
                 (configmap_body ''ns1'' ''default'' ''options {};'' ''uid-1'' ''config''),
               PatchConfigMap ''ns1-config'' ''default''
                 (configmap_body ''ns1'' ''default'' ''options {};'' ''uid-1'' ''config'')]) \<and>
   create_bind9_services store_env ''ns1'' ''default'' ''uid-1''
     [CreateService ''default'' (bind9_service ''ns1'' ''default'' ''uid-1'')] =
     (Inr (), [CreateService ''default'' (bind9_service ''ns1'' ''default'' ''uid-1''),
               LoadInclusterConfig,
               CreateService ''default'' (bind9_service ''ns1'' ''default'' ''uid-1'')]) \<and>
   create_bind9_services
     (store_env \<lparr>respond := (\<lambda>h c. if c = LoadInclusterConfig then None
                                    else Some (ApiException 500 ''Internal Server Error''))\<rparr>)
     ''ns1'' ''default'' ''uid-1'' [] =
     (Inl (ApiException 500 ''Internal Server Error''),
      [LoadInclusterConfig, CreateService ''default'' (bind9_service ''ns1'' ''default'' ''uid-1'')])"
  using upsert_on_conflict [where w = refusing_env and h = "[]" and ?h1.0 = "[LoadInclusterConfig]"
      and name = "''ns1''" and namespace = "''default''" and uid = "''uid-1''"
      and data = "''options {};''" and cm_type = "''config''" and spec = "[]"
      and status = 500 and m = "''Internal Server Error''"]
    upsert_on_conflict [where w = store_env
      and h = "[CreateConfigMap ''default''
        (configmap_body ''ns1'' ''default'' ''options { recursion no; };'' ''uid-1'' ''config'')]"
      and ?h1.0 = "[CreateConfigMap ''default''
        (configmap_body ''ns1'' ''default'' ''options { recursion no; };'' ''uid-1'' ''config''),
        LoadInclusterConfig]"
      and name = "''ns1''" and namespace = "''default''" and uid = "''uid-1''"
      and data = "''options {};''" and cm_type = "''config''" and m = "''Conflict''"]
  by (simp add: eval_defs refusing_env_def create_bind9_instance_def cfg_eval configmap_body_def
      bind9_service_def bind9_statefulset_def)

text \<open>
  C6. The ConfigMap that the reconciliation of a zone sends carries one owner reference. It
  has the name and the uid of the zone resource, and the kind \<^verbatim>\<open>Bind9Instance\<close>: the
  kind is a constant of \<^verbatim>\<open>create_configmap\<close>, which the zone handler shares with the
  instance handlers, so the reference names an instance that has the zone's name.
\<close>

theorem zone_configmap_owner_kind:
  "cm \<in> set (configmaps_of (new_calls (manage_dns_zone w spec name namespace uid) h)) \<Longrightarrow>
   om_owner_references (cm_metadata cm) =
     [\<lparr>or_api_version = ''dns.example.com/v1alpha1'', or_kind = ''Bind9Instance'',
       or_name = name, or_uid = uid, or_controller = None, or_block_owner_deletion = None\<rparr>]"
  by (drule configmaps_of_emits [OF emits_manage_dns_zone])
     (auto simp: configmap_body_def bind9_owner_def)

theorem zone_configmap_owner_kind_witness:
  "map (\<lambda>cm. (om_name (cm_metadata cm), om_owner_references (cm_metadata cm)))
     (configmaps_of (new_calls
        (manage_dns_zone store_env [(''zoneName'', PStr ''example.com'')]
           ''example-zone'' ''default'' ''uid-zone-1'') [])) =
   [(Some ''example-zone-zone'',
     [\<lparr>or_api_version = ''dns.example.com/v1alpha1'', or_kind = ''Bind9Instance'',
       or_name = ''example-zone'', or_uid = ''uid-zone-1'', or_controller = None,
       or_block_owner_deletion = None\<rparr>])]"
proof -
  let ?cms = "configmaps_of (new_calls
        (manage_dns_zone store_env [(''zoneName'', PStr ''example.com'')]
           ''example-zone'' ''default'' ''uid-zone-1'') [])"
  have names: "map (\<lambda>cm. om_name (cm_metadata cm)) ?cms = [Some ''example-zone-zone'']"
    by (simp add: manage_dns_zone_def reload_bind9_config_def eval_defs py_get_def
        py_get_default_def configmap_body_def generate_zone_file_def py_attr_get_def
        py_replace_def bind_def ZONE_FILE_TEMPLATE_def)
  then obtain cm where cms: "?cms = [cm]" by auto
  then have "cm \<in> set ?cms" by simp
  from zone_configmap_owner_kind [OF this] cms names show ?thesis by simp
qed

text \<open>
  C9 as stated fails: with a name server that does not answer, the probe reports failure,
  the failure is logged, and the wait that follows is 60, not 120.
\<close>

theorem monitor_cycle_probe_failure_counterexample:
  "monitor_cycle dns_down_env ''ns1'' ''default'' [] =
     (Inr (), [DnsQuery ''ns1-dns.default.svc.cluster.local'',
               LogError ''DNS test failed: timed out'',
               LogError ''DNS functionality check failed for ns1'',
               Wait 60])"
  by (simp add: monitor_cycle_def test_dns_functionality_def io_defs dns_down_env_def store_env_def)

text \<open>
  C9, as the code has it. In a turn of the daemon in which neither the error log nor the
  wait raises, the probe is followed by a wait of 60 whether it answered or not; a probe
  that failed is logged, by the probe and by the daemon, and the turn ends without an
  exception. (The wait of 120 belongs to the \<^verbatim>\<open>except\<close> branch, which the probe's own
  failures never reach.)
\<close>

theorem monitor_cycle_waits_60:
  assumes logs: "\<forall>h' m. respond w h' (LogError m) = None"
    and waits: "\<forall>h'. respond w h' (Wait 60) = None"
  shows "monitor_cycle w name namespace h =
     (Inr (),
      h @ [DnsQuery (name @ ''-dns.'' @ namespace @ ''.svc.cluster.local'')] @
      (case respond w h (DnsQuery (name @ ''-dns.'' @ namespace @ ''.svc.cluster.local'')) of
         None \<Rightarrow> []
       | Some e \<Rightarrow> [LogError (''DNS test failed: '' @ exn_str e),
                     LogError (''DNS functionality check failed for '' @ name)]) @
      [Wait 60])"
  using assms
  by (simp add: monitor_cycle_def test_dns_functionality_def io_defs split: option.splits)

theorem monitor_cycle_waits_60_witness:
  "(\<forall>h' m. respond dns_down_env h' (LogError m) = None) \<and>
   (\<forall>h'. respond dns_down_env h' (Wait 60) = None) \<and>
   monitor_cycle dns_down_env ''ns2'' ''prod'' [] =
     (Inr (), [DnsQuery ''ns2-dns.prod.svc.cluster.local'',
               LogError ''DNS test failed: timed out'',
               LogError ''DNS functionality check failed for ns2'',
               Wait 60]) \<and>
   monitor_cycle store_env ''ns2'' ''prod'' [] =
     (Inr (), [DnsQuery ''ns2-dns.prod.svc.cluster.local'', Wait 60])"
  using monitor_cycle_waits_60 [of dns_down_env "''ns2''" "''prod''" "[]"]
    monitor_cycle_waits_60 [of store_env "''ns2''" "''prod''" "[]"]
  by (simp add: dns_down_env_def store_env_def list_ex_iff)

text \<open>
  C10. The StatefulSet built for an instance \<open>n\<close> takes its \<^verbatim>\<open>zones\<close> volume from the
  ConfigMap \<open>n-zones\<close>, and every StatefulSet request of any event carries such a body.
  A ConfigMap request is made only by the creation and the update of an instance, with
  the name \<open>n-config\<close>, and by the reconciliation of a zone, with the name \<open>n-zone\<close>;
  no request carries a name that ends in \<^verbatim>\<open>-zones\<close>.
\<close>

theorem zones_configmap_never_created:
  "\<lparr>vol_name = ''zones'', vol_config_map = n @ ''-zones''\<rparr>
      \<in> set (sts_volumes (bind9_statefulset spec n namespace uid)) \<and>
   (st \<in> set (statefulsets_of (new_calls (dispatch w ev) h)) \<longrightarrow>
      (\<exists>spec' n' ns' uid'. st = bind9_statefulset spec' n' ns' uid')) \<and>
   (cm \<in> set (configmaps_of (new_calls (dispatch w ev) h)) \<longrightarrow>
      ((\<exists>spec' n' ns' uid'. (ev = InstanceCreated spec' n' ns' uid' \<or>
              (\<exists>diff. ev = InstanceUpdated spec' n' ns' uid' diff)) \<and>
            om_name (cm_metadata cm) = Some (n' @ ''-config'')) \<or>
       (\<exists>spec' n' ns' uid'. ev = ZoneChanged spec' n' ns' uid' \<and>
            om_name (cm_metadata cm) = Some (n' @ ''-zone''))) \<and>
      (\<forall>n'. om_name (cm_metadata cm) \<noteq> Some (n' @ ''-zones'')))"
proof (intro conjI impI allI)
  show "\<lparr>vol_name = ''zones'', vol_config_map = n @ ''-zones''\<rparr>
      \<in> set (sts_volumes (bind9_statefulset spec n namespace uid))"
    by (simp add: bind9_statefulset_def)
next
  assume "st \<in> set (statefulsets_of (new_calls (dispatch w ev) h))"
  then show "\<exists>spec' n' ns' uid'. st = bind9_statefulset spec' n' ns' uid'"
    by (rule statefulsets_of_emits [OF emits_dispatch_statefulset])
next
  assume a: "cm \<in> set (configmaps_of (new_calls (dispatch w ev) h))"
  then show "(\<exists>spec' n' ns' uid'. (ev = InstanceCreated spec' n' ns' uid' \<or>
              (\<exists>diff. ev = InstanceUpdated spec' n' ns' uid' diff)) \<and>
            om_name (cm_metadata cm) = Some (n' @ ''-config'')) \<or>
       (\<exists>spec' n' ns' uid'. ev = ZoneChanged spec' n' ns' uid' \<and>
            om_name (cm_metadata cm) = Some (n' @ ''-zone''))"
    by (rule dispatch_configmap_name)
  fix n'
  from dispatch_configmap_name [OF a]
  show "om_name (cm_metadata cm) \<noteq> Some (n' @ ''-zones'')"
    by (auto simp: config_not_zones zone_not_zones)
qed

theorem zones_configmap_never_created_witness:
  "map (\<lambda>cm. om_name (cm_metadata cm))
     (configmaps_of (new_calls
        (dispatch store_env (InstanceCreated [] ''ns1'' ''default'' ''uid-1'')) [])) =
     [Some ''ns1-config''] \<and>
   map (\<lambda>st. map (\<lambda>v. (vol_name v, vol_config_map v)) (sts_volumes st))
     (statefulsets_of (new_calls
        (dispatch store_env (InstanceCreated [] ''ns1'' ''default'' ''uid-1'')) [])) =
     [[(''config'', ''ns1-config''), (''zones'', ''ns1-zones'')]]"
  using zones_configmap_never_created [where w = store_env
      and ev = "InstanceCreated [] ''ns1'' ''default'' ''uid-1''" and h = "[]"
      and n = "''ns1''" and spec = "[]" and namespace = "''default''" and uid = "''uid-1''"
      and st = "bind9_statefulset [] ''ns1'' ''default'' ''uid-1''"]
  by (simp add: create_bind9_instance_def eval_defs cfg_eval configmap_body_def
      bind9_statefulset_def bind9_service_def)

end
